theory Spec2Isabelle
  imports Main "HOL-Library.Word"
begin

section \<open>The SSH relay of server/src/index.ts\<close>

text \<open>
  The backend keeps, for every WebSocket connection, four closure variables
  (\<open>sshClient\<close>, \<open>sshStream\<close>, \<open>connected\<close>, \<open>pendingResize\<close>) and registers
  callbacks on the socket, on every ssh2 \<open>Client\<close> it creates and on every shell
  stream it is handed. The model makes the closure variables the fields of a record,
  every callback a function on that record, and every call into the \<open>ws\<close> and
  \<open>ssh2\<close> libraries an entry of an effect trace.
\<close>

subsection \<open>Values decoded from a frame\<close>

text \<open>
  \<open>JSON.parse\<close> is a library function: a frame reaches the model as its result,
  a JavaScript value, or as nothing when the call threw. An object is the list of its
  properties, each key once. Numbers are kept as integers; the handler only tests them
  for truthiness and passes them on.
\<close>

datatype jsval =
    Undefined
  | JNull
  | JBool bool
  | JNum int
  | JStr string
  | JArr "jsval list"
  | JObj "(string \<times> jsval) list"

text \<open>Property read \<open>v.k\<close> on a value that is neither \<open>null\<close> nor \<open>undefined\<close>.\<close>

fun get_field :: "jsval \<Rightarrow> string \<Rightarrow> jsval" where
  "get_field (JObj kvs) k = (case map_of kvs k of Some v \<Rightarrow> v | None \<Rightarrow> Undefined)"
| "get_field _ k = Undefined"

text \<open>The operand test of \<open>!v\<close>.\<close>

fun falsy :: "jsval \<Rightarrow> bool" where
  "falsy Undefined = True"
| "falsy JNull = True"
| "falsy (JBool b) = (\<not> b)"
| "falsy (JNum n) = (n = 0)"
| "falsy (JStr s) = (s = [])"
| "falsy (JArr _) = False"
| "falsy (JObj _) = False"

text \<open>A destructuring default \<open>{ k = d }\<close>: it applies to \<open>undefined\<close> only.\<close>

definition dflt :: "jsval \<Rightarrow> jsval \<Rightarrow> jsval" where
  "dflt d v = (if v = Undefined then d else v)"

subsection \<open>Outbound messages and library calls\<close>

datatype status = Connecting | Connected | Disconnected | Error

datatype out_msg =
    Status status "string option"
  | Output string

type_synonym buffer = "8 word list"

text \<open>
  Handles are numbered in creation order. \<open>StreamSetWindow st rows cols\<close> stands for
  \<open>setWindow(rows, cols, rows * 8, cols * 8)\<close>, whose last two arguments are fixed by
  the first two; \<open>ClientShell c cols rows\<close> for
  \<open>shell({cols, rows, term: 'xterm-color'}, callback)\<close>.
\<close>

datatype effect =
    Send out_msg
  | NewClient nat
  | ClientConnect nat jsval jsval jsval jsval
  | ClientShell nat jsval jsval
  | ClientEnd nat
  | StreamEnd nat
  | StreamWrite nat jsval
  | StreamSetWindow nat jsval jsval

subsection \<open>Per-connection state\<close>

text \<open>
  The first four fields are the closure variables. \<open>wsOpen\<close> is
  \<open>ws.readyState === ws.OPEN\<close>; \<open>clients\<close> lists the \<open>Client\<close> objects created so
  far, each with the \<open>cols\<close> and \<open>rows\<close> its callbacks captured; \<open>shellReqs\<close> counts
  the \<open>shell\<close> calls whose callback is still due; \<open>streams\<close> lists the streams that
  carry the data and close callbacks; \<open>trace\<close> is the effect trace.
\<close>

record session =
  sshClient :: "nat option"
  sshStream :: "nat option"
  connected :: bool
  pendingResize :: "(jsval \<times> jsval) option"
  wsOpen :: bool
  clients :: "(jsval \<times> jsval) list"
  shellReqs :: nat
  streams :: "nat list"
  trace :: "effect list"

definition init :: session where
  "init = \<lparr> sshClient = None, sshStream = None, connected = False,
            pendingResize = None, wsOpen = True, clients = [], shellReqs = 0,
            streams = [], trace = [] \<rparr>"

definition emit :: "effect \<Rightarrow> session \<Rightarrow> session" where
  "emit e s = s\<lparr> trace := trace s @ [e] \<rparr>"

definition sendStatus :: "session \<Rightarrow> out_msg \<Rightarrow> session" where
  "sendStatus s m = (if wsOpen s then emit (Send m) s else s)"

definition cleanup :: "session \<Rightarrow> session" where
  "cleanup s =
     (let s1 = (case sshStream s of
                  Some st \<Rightarrow> (emit (StreamEnd st) s)\<lparr> sshStream := None \<rparr>
                | None \<Rightarrow> s);
          s2 = (case sshClient s1 of
                  Some c \<Rightarrow> (emit (ClientEnd c) s1)\<lparr> sshClient := None \<rparr>
                | None \<Rightarrow> s1)
      in s2\<lparr> connected := False, pendingResize := None \<rparr>)"

subsection \<open>Callbacks on the ssh2 client\<close>

text \<open>
  The \<open>ready\<close> callback of a client; \<open>cols\<close> and \<open>rows\<close> are the values that
  client's \<open>connect\<close> message destructured. The shell is requested on whatever
  \<open>sshClient\<close> holds when the callback runs (\<open>sshClient?.shell\<close>).
\<close>

definition on_ready :: "session \<Rightarrow> jsval \<times> jsval \<Rightarrow> session" where
  "on_ready s cr =
     (let s1 = sendStatus s (Status Connected None);
          s2 = s1\<lparr> connected := True \<rparr>
      in case sshClient s2 of
           Some c \<Rightarrow> (emit (ClientShell c (fst cr) (snd cr)) s2)\<lparr> shellReqs := Suc (shellReqs s2) \<rparr>
         | None \<Rightarrow> s2)"

definition on_client_error :: "session \<Rightarrow> string \<Rightarrow> session" where
  "on_client_error s msg = cleanup (sendStatus s (Status Error (Some msg)))"

definition on_client_end :: "session \<Rightarrow> session" where
  "on_client_end s = cleanup (sendStatus s (Status Disconnected (Some ''SSH session ended'')))"

text \<open>
  The callback handed to \<open>shell\<close>: \<open>err\<close> is the message of the error, if one is
  passed, and \<open>stream\<close> the handle of the channel, if one is passed.
\<close>

definition shell_callback :: "session \<Rightarrow> string option \<Rightarrow> nat option \<Rightarrow> session" where
  "shell_callback s err stream =
     (case (err, stream) of
        (None, Some st) \<Rightarrow>
          (let s1 = s\<lparr> sshStream := Some st \<rparr>;
               s2 = (case pendingResize s1 of
                       Some (pendingCols, pendingRows) \<Rightarrow>
                         (emit (StreamSetWindow st pendingRows pendingCols) s1)\<lparr> pendingResize := None \<rparr>
                     | None \<Rightarrow> s1)
           in s2\<lparr> streams := streams s2 @ [st] \<rparr>)
      | _ \<Rightarrow>
          cleanup (sendStatus s (Status Error
            (Some (case err of Some m \<Rightarrow> m | None \<Rightarrow> ''Failed to open shell'')))))"

subsection \<open>Callbacks on the shell stream\<close>

text \<open>
  \<open>Buffer.toString('utf-8')\<close> is a library function; the model takes it as the
  parameter \<open>dec\<close>. The stream's \<open>data\<close> callback and its \<open>stderr\<close>'s are the same
  function.
\<close>

definition on_stream_data :: "(buffer \<Rightarrow> string) \<Rightarrow> session \<Rightarrow> buffer \<Rightarrow> session" where
  "on_stream_data dec s chunk = sendStatus s (Output (dec chunk))"

definition on_stream_close :: "session \<Rightarrow> session" where
  "on_stream_close s =
     cleanup (sendStatus s (Status Disconnected (Some ''Remote stream closed'')))"

subsection \<open>Callbacks on the WebSocket\<close>

datatype exn = TypeError

text \<open>
  The \<open>message\<close> callback. Its argument is the outcome of \<open>JSON.parse\<close>. Reading
  \<open>parsed.type\<close> of \<open>null\<close> throws outside the \<open>try\<close> block.

  In the \<open>connect\<close> branch \<open>ClientConnect\<close> records the call of \<open>connect\<close> with
  the arguments as the frame gave them. The library's own check of these arguments,
  which ends the handler with an exception on a configuration it refuses at once, is
  not followed: \<open>on_connect\<close> describes the handler up to and including that call.
\<close>

definition on_connect :: "session \<Rightarrow> jsval \<Rightarrow> session" where
  "on_connect s parsed =
     (if connected s then sendStatus s (Status Error (Some ''Already connected''))
      else
        let host = get_field parsed ''host'';
            username = get_field parsed ''username'';
            password = get_field parsed ''password'';
            sshPort = dflt (JNum 22) (get_field parsed ''port'');
            cols = dflt (JNum 80) (get_field parsed ''cols'');
            rows = dflt (JNum 24) (get_field parsed ''rows'')
        in if falsy host \<or> falsy username \<or> falsy password
           then sendStatus s (Status Error (Some ''Missing required credentials''))
           else
             let c = length (clients s);
                 s1 = (emit (NewClient c) s)\<lparr> sshClient := Some c,
                                              clients := clients s @ [(cols, rows)] \<rparr>;
                 s2 = sendStatus s1 (Status Connecting None)
             in emit (ClientConnect c host username password sshPort) s2)"

text \<open>
  The \<open>input\<close> case: the error branch is taken when \<open>!connected || !sshStream\<close>,
  that is, unless a stream is held and the flag is set. Otherwise \<open>parsed.data\<close> is
  passed to \<open>sshStream.write\<close>, which accepts text and, in what \<open>JSON.parse\<close> can
  produce, nothing else: on a \<open>data\<close> that is missing or no string it throws a
  \<open>TypeError\<close>, and the handler ends with it.
\<close>

definition on_input :: "session \<Rightarrow> jsval \<Rightarrow> exn + session" where
  "on_input s parsed =
     (case sshStream s of
        Some st \<Rightarrow>
          if connected s then
            (case get_field parsed ''data'' of
               JStr d \<Rightarrow> Inr (emit (StreamWrite st (JStr d)) s)
             | _ \<Rightarrow> Inl TypeError)
          else Inr (sendStatus s (Status Error (Some ''No active connection'')))
      | None \<Rightarrow> Inr (sendStatus s (Status Error (Some ''No active connection''))))"

definition on_resize :: "session \<Rightarrow> jsval \<Rightarrow> session" where
  "on_resize s parsed =
     (case sshStream s of
        Some st \<Rightarrow> emit (StreamSetWindow st (get_field parsed ''rows'') (get_field parsed ''cols'')) s
      | None \<Rightarrow> s\<lparr> pendingResize := Some (get_field parsed ''cols'', get_field parsed ''rows'') \<rparr>)"

definition on_disconnect :: "session \<Rightarrow> session" where
  "on_disconnect s =
     cleanup (if connected s \<or> sshStream s \<noteq> None
              then sendStatus s (Status Disconnected (Some ''Disconnected by client''))
              else s)"

definition on_message :: "session \<Rightarrow> jsval option \<Rightarrow> exn + session" where
  "on_message s raw =
     (case raw of
        None \<Rightarrow> Inr (sendStatus s (Status Error (Some ''Invalid message format'')))
      | Some parsed \<Rightarrow>
          if parsed = JNull \<or> parsed = Undefined then Inl TypeError
          else
            let ty = get_field parsed ''type'' in
            if ty = JStr ''connect'' then Inr (on_connect s parsed)
            else if ty = JStr ''input'' then on_input s parsed
            else if ty = JStr ''resize'' then Inr (on_resize s parsed)
            else if ty = JStr ''disconnect'' then Inr (on_disconnect s)
            else Inr s)"

definition on_ws_close :: "session \<Rightarrow> session" where
  "on_ws_close s = cleanup s"

definition on_ws_error :: "session \<Rightarrow> session" where
  "on_ws_error s = cleanup s"

subsection \<open>The event loop\<close>

text \<open>
  One event is one callback invocation by the libraries, or one change of the socket's
  state that no callback reports. A callback runs only where it
  is registered: a client's once that client exists, the shell callback while a
  \<open>shell\<close> call is outstanding, a stream's once \<open>shell_callback\<close> has accepted that
  stream, the \<open>message\<close> callback while the socket is open. A stream handed to the
  shell callback is a new object, numbered after the ones seen so far. The \<open>close\<close>
  event of the socket finds \<open>readyState\<close> already \<open>CLOSED\<close>, and its \<open>error\<close>
  event finds it \<open>CLOSING\<close>: after either, \<open>sendStatus\<close> sends nothing.
  \<open>WsClosing\<close> is no callback: the library takes \<open>readyState\<close> from \<open>OPEN\<close> to
  \<open>CLOSING\<close> when the peer's close frame arrives, before it delivers \<open>close\<close>.
\<close>

datatype event =
    WsMessage "jsval option"
  | WsClosing
  | WsClose
  | WsError
  | ClientReady nat
  | ClientError nat string
  | ClientEndEv nat
  | ShellCallback "string option" bool
  | StreamData nat buffer
  | StreamStderr nat buffer
  | StreamClose nat

fun step :: "(buffer \<Rightarrow> string) \<Rightarrow> session \<Rightarrow> event \<Rightarrow> exn + session" where
  "step dec s (WsMessage raw) = (if wsOpen s then on_message s raw else Inr s)"
| "step dec s WsClosing = Inr (s\<lparr> wsOpen := False \<rparr>)"
| "step dec s WsClose = Inr (on_ws_close (s\<lparr> wsOpen := False \<rparr>))"
| "step dec s WsError = Inr (on_ws_error (s\<lparr> wsOpen := False \<rparr>))"
| "step dec s (ClientReady c) =
     Inr (if c < length (clients s) then on_ready s (clients s ! c) else s)"
| "step dec s (ClientError c msg) =
     Inr (if c < length (clients s) then on_client_error s msg else s)"
| "step dec s (ClientEndEv c) =
     Inr (if c < length (clients s) then on_client_end s else s)"
| "step dec s (ShellCallback err stream) =
     Inr (if 0 < shellReqs s
          then shell_callback (s\<lparr> shellReqs := shellReqs s - 1 \<rparr>) err
                 (if stream then Some (length (streams s)) else None)
          else s)"
| "step dec s (StreamData st chunk) =
     Inr (if st \<in> set (streams s) then on_stream_data dec s chunk else s)"
| "step dec s (StreamStderr st chunk) =
     Inr (if st \<in> set (streams s) then on_stream_data dec s chunk else s)"
| "step dec s (StreamClose st) =
     Inr (if st \<in> set (streams s) then on_stream_close s else s)"

fun run :: "(buffer \<Rightarrow> string) \<Rightarrow> session \<Rightarrow> event list \<Rightarrow> exn + session" where
  "run dec s [] = Inr s"
| "run dec s (e # es) = (case step dec s e of Inl x \<Rightarrow> Inl x | Inr s' \<Rightarrow> run dec s' es)"

subsection \<open>The library's UTF-8 decoding\<close>










subsection \<open>Scenario data and observations\<close>

text \<open>
  The frames of the specification's scenarios A, B and D, a byte reader to run the
  loop with (\<open>byte_chars\<close>, the text whose UTF-8 encoding is the buffer itself), and
  the states the scenarios pass through.
\<close>

definition connect_frame :: jsval where
  "connect_frame = JObj [(''type'', JStr ''connect''), (''host'', JStr ''10.0.0.5''),
     (''username'', JStr ''root''), (''password'', JStr ''x''), (''port'', JNum 22),
     (''cols'', JNum 80), (''rows'', JNum 24)]"

definition resize_frame :: "int \<Rightarrow> int \<Rightarrow> jsval" where
  "resize_frame c r = JObj [(''type'', JStr ''resize''), (''cols'', JNum c), (''rows'', JNum r)]"

definition disconnect_frame :: jsval where
  "disconnect_frame = JObj [(''type'', JStr ''disconnect'')]"

definition input_frame :: "string \<Rightarrow> jsval" where
  "input_frame d = JObj [(''type'', JStr ''input''), (''data'', JStr d)]"

definition ping_frame :: jsval where
  "ping_frame = JObj [(''type'', JStr ''ping'')]"

definition byte_chars :: "buffer \<Rightarrow> string" where
  "byte_chars bs = map (\<lambda>b. char_of (unat b)) bs"

text \<open>After scenario A's \<open>connect\<close> frame.\<close>

definition scenario_connecting :: session where
  "scenario_connecting =
     \<lparr> sshClient = Some 0, sshStream = None, connected = False, pendingResize = None,
       wsOpen = True, clients = [(JNum 80, JNum 24)], shellReqs = 0, streams = [],
       trace = [NewClient 0, Send (Status Connecting None),
                ClientConnect 0 (JStr ''10.0.0.5'') (JStr ''root'') (JStr ''x'') (JNum 22)] \<rparr>"

text \<open>After the client's \<open>ready\<close> event: the shell is requested.\<close>

definition scenario_authenticated :: session where
  "scenario_authenticated =
     \<lparr> sshClient = Some 0, sshStream = None, connected = True, pendingResize = None,
       wsOpen = True, clients = [(JNum 80, JNum 24)], shellReqs = 1, streams = [],
       trace = [NewClient 0, Send (Status Connecting None),
                ClientConnect 0 (JStr ''10.0.0.5'') (JStr ''root'') (JStr ''x'') (JNum 22),
                Send (Status Connected None), ClientShell 0 (JNum 80) (JNum 24)] \<rparr>"

text \<open>After the shell callback delivered a stream.\<close>

definition scenario_active :: session where
  "scenario_active =
     \<lparr> sshClient = Some 0, sshStream = Some 0, connected = True, pendingResize = None,
       wsOpen = True, clients = [(JNum 80, JNum 24)], shellReqs = 0, streams = [0],
       trace = [NewClient 0, Send (Status Connecting None),
                ClientConnect 0 (JStr ''10.0.0.5'') (JStr ''root'') (JStr ''x'') (JNum 22),
                Send (Status Connected None), ClientShell 0 (JNum 80) (JNum 24)] \<rparr>"

text \<open>The clients created on this socket on which \<open>end()\<close> was never called.\<close>

definition live_clients :: "session \<Rightarrow> nat list" where
  "live_clients s = filter (\<lambda>c. ClientEnd c \<notin> set (trace s)) [0 ..< length (clients s)]"

fun is_resize :: "event \<Rightarrow> bool" where
  "is_resize (WsMessage (Some p)) = (get_field p ''type'' = JStr ''resize'')"
| "is_resize _ = False"

fun is_setWindow :: "effect \<Rightarrow> bool" where
  "is_setWindow (StreamSetWindow st r c) = True"
| "is_setWindow _ = False"

fun is_connected :: "effect \<Rightarrow> bool" where
  "is_connected (Send (Status Connected m)) = True"
| "is_connected _ = False"



text \<open>
  The teardown events, each with the condition under which its callback is registered:
  a \<open>disconnect\<close> frame, the socket's \<open>close\<close> and \<open>error\<close>, a client's \<open>error\<close> and
  \<open>end\<close>, a stream's \<open>close\<close>, and a shell callback that reports failure.
\<close>

fun teardown :: "session \<Rightarrow> event \<Rightarrow> bool" where
  "teardown s (WsMessage (Some p)) = (wsOpen s \<and> get_field p ''type'' = JStr ''disconnect'')"
| "teardown s WsClose = True"
| "teardown s WsError = True"
| "teardown s (ClientError c msg) = (c < length (clients s))"
| "teardown s (ClientEndEv c) = (c < length (clients s))"
| "teardown s (StreamClose st) = (st \<in> set (streams s))"
| "teardown s (ShellCallback err stream) = (0 < shellReqs s \<and> (err \<noteq> None \<or> \<not> stream))"
| "teardown s _ = False"

section \<open>Basic facts\<close>

lemmas handler_defs = on_message_def on_connect_def on_input_def on_resize_def
  on_disconnect_def on_ready_def on_client_error_def on_client_end_def shell_callback_def
  on_stream_data_def on_stream_close_def on_ws_close_def on_ws_error_def cleanup_def
  sendStatus_def emit_def dflt_def Let_def

lemmas scenario_defs = connect_frame_def resize_frame_def disconnect_frame_def
  input_frame_def ping_frame_def init_def scenario_connecting_def
  scenario_authenticated_def scenario_active_def

lemma on_message_connect:
  "get_field p ''type'' = JStr ''connect'' \<Longrightarrow> on_message s (Some p) = Inr (on_connect s p)"
  by (cases p) (simp_all add: on_message_def)

lemma on_message_input:
  "get_field p ''type'' = JStr ''input'' \<Longrightarrow> on_message s (Some p) = on_input s p"
  by (cases p) (simp_all add: on_message_def)

lemma on_message_resize:
  "get_field p ''type'' = JStr ''resize'' \<Longrightarrow> on_message s (Some p) = Inr (on_resize s p)"
  by (cases p) (simp_all add: on_message_def)

lemma on_message_disconnect:
  "get_field p ''type'' = JStr ''disconnect'' \<Longrightarrow> on_message s (Some p) = Inr (on_disconnect s)"
  by (cases p) (simp_all add: on_message_def)

lemma on_input_Inr:
  assumes "on_input s p = Inr s'"
  shows "(\<exists>st d. s' = emit (StreamWrite st (JStr d)) s)
       \<or> s' = sendStatus s (Status Error (Some ''No active connection''))"
proof (cases "sshStream s")
  case None
  with assms show ?thesis by (simp add: on_input_def)
next
  case (Some st)
  show ?thesis
  proof (cases "connected s")
    case False
    with Some assms show ?thesis by (simp add: on_input_def)
  next
    case True
    with Some assms show ?thesis
      by (cases "get_field p ''data''") (auto simp add: on_input_def)
  qed
qed

lemma cleanup_trace:
  "trace (cleanup s) = trace s
     @ (case sshStream s of Some st \<Rightarrow> [StreamEnd st] | None \<Rightarrow> [])
     @ (case sshClient s of Some c \<Rightarrow> [ClientEnd c] | None \<Rightarrow> [])"
  by (simp add: cleanup_def emit_def Let_def split: option.splits)

lemma cleanup_vars [simp]:
  "sshClient (cleanup s) = None" "sshStream (cleanup s) = None" "\<not> connected (cleanup s)"
  "pendingResize (cleanup s) = None" "wsOpen (cleanup s) = wsOpen s"
  "clients (cleanup s) = clients s" "shellReqs (cleanup s) = shellReqs s"
  "streams (cleanup s) = streams s"
  by (simp_all add: cleanup_def emit_def Let_def split: option.splits)

lemma sendStatus_vars [simp]:
  "sshClient (sendStatus s m) = sshClient s" "sshStream (sendStatus s m) = sshStream s"
  "connected (sendStatus s m) = connected s"
  "pendingResize (sendStatus s m) = pendingResize s" "wsOpen (sendStatus s m) = wsOpen s"
  "clients (sendStatus s m) = clients s" "shellReqs (sendStatus s m) = shellReqs s"
  "streams (sendStatus s m) = streams s"
  by (simp_all add: sendStatus_def emit_def)

lemma sendStatus_trace:
  "trace (sendStatus s m) = trace s @ (if wsOpen s then [Send m] else [])"
  by (simp add: sendStatus_def emit_def)

lemma run_append:
  "run dec s (xs @ ys) = (case run dec s xs of Inl x \<Rightarrow> Inl x | Inr s' \<Rightarrow> run dec s' ys)"
  by (induction xs arbitrary: s) (simp_all split: sum.splits)

text \<open>The scenario states are the ones the loop reaches.\<close>

lemma scenario_connecting_reached:
  "run dec init [WsMessage (Some connect_frame)] = Inr scenario_connecting"
  by (simp add: handler_defs scenario_defs)

lemma scenario_authenticated_reached:
  "run dec scenario_connecting [ClientReady 0] = Inr scenario_authenticated"
  by (simp add: handler_defs scenario_defs)

lemma scenario_active_reached:
  "run dec scenario_authenticated [ShellCallback None True] = Inr scenario_active"
  by (simp add: handler_defs scenario_defs)


text \<open>
  The part of the state machine's rejection rule the code implements: once a client
  reported \<open>ready\<close>, a further \<open>connect\<close> frame is answered with an error and changes
  nothing.
\<close>

lemma connect_rejected_when_connected:
  "connected s \<Longrightarrow> wsOpen s \<Longrightarrow> get_field p ''type'' = JStr ''connect'' \<Longrightarrow>
   on_message s (Some p) =
     Inr (s\<lparr> trace := trace s @ [Send (Status Error (Some ''Already connected''))] \<rparr>)"
  by (simp add: on_message_connect on_connect_def sendStatus_def emit_def)

text \<open>
  Before \<open>ready\<close> the flag is unset, and a \<open>connect\<close> frame naming a host, a user
  and a password is accepted whatever \<open>sshClient\<close> holds: a new client is created
  and stored, and nothing is called on the client stored before.
\<close>

lemma connect_accepted_when_not_connected:
  assumes "\<not> connected s" and "wsOpen s"
    and "get_field p ''host'' = JStr h" and "h \<noteq> []"
    and "get_field p ''username'' = JStr u" and "u \<noteq> []"
    and "get_field p ''password'' = JStr w" and "w \<noteq> []"
    and "get_field p ''port'' = JNum n" and "0 < n" and "n \<le> 65535"
  shows "sshClient (on_connect s p) = Some (length (clients s))"
    and "trace (on_connect s p) = trace s
           @ [NewClient (length (clients s)), Send (Status Connecting None),
              ClientConnect (length (clients s)) (JStr h) (JStr u) (JStr w) (JNum n)]"
  using assms by (simp_all add: on_connect_def sendStatus_def emit_def Let_def dflt_def)

section \<open>The claims\<close>

subsection \<open>C1: a second connect while the first is in flight\<close>

text \<open>
  C1. The claim: in state Connecting or Active a \<open>connect\<close> frame is answered with
  exactly one \<open>Status(error, "Already connected")\<close>, creates no new client and leaves
  the session as it was. The code tests the \<open>connected\<close> flag, which only the \<open>ready\<close>
  callback sets. Evaluated on two \<open>connect\<close> frames in a row: the second one, arriving
  while the first client is still connecting, creates client 1, stores it over client 0
  without ending client 0, and is answered with \<open>Status(connecting)\<close>.
\<close>

theorem C1_second_connect_in_flight:
  "run byte_chars init [WsMessage (Some connect_frame), WsMessage (Some connect_frame)] =
     Inr \<lparr> sshClient = Some 1, sshStream = None, connected = False, pendingResize = None,
           wsOpen = True, clients = [(JNum 80, JNum 24), (JNum 80, JNum 24)],
           shellReqs = 0, streams = [],
           trace = [NewClient 0, Send (Status Connecting None),
                    ClientConnect 0 (JStr ''10.0.0.5'') (JStr ''root'') (JStr ''x'') (JNum 22),
                    NewClient 1, Send (Status Connecting None),
                    ClientConnect 1 (JStr ''10.0.0.5'') (JStr ''root'') (JStr ''x'') (JNum 22)] \<rparr>"
  by (simp add: handler_defs scenario_defs)

subsection \<open>C2: one remote handle per session\<close>

text \<open>
  C2. The claim: no processing step leaves two live remote handles owned by one
  session. Evaluated on two \<open>connect\<close> frames in a row: the session variable holds
  client 1, and clients 0 and 1 are both live, \<open>end()\<close> having been called on neither.
  Client 0's callbacks stay registered: its \<open>error\<close> event afterwards runs \<open>cleanup\<close>
  on the shared variables and ends client 1, leaving client 0 live.
\<close>

theorem C2_two_live_clients:
  "map_sum id (\<lambda>s. (sshClient s, live_clients s))
     (run byte_chars init [WsMessage (Some connect_frame), WsMessage (Some connect_frame)])
     = Inr (Some 1, [0, 1])
   \<and> map_sum id (\<lambda>s. (sshClient s, live_clients s))
     (run byte_chars init [WsMessage (Some connect_frame), WsMessage (Some connect_frame),
                           ClientError 0 ''timeout''])
     = Inr (None, [0])"
  by (simp add: handler_defs scenario_defs live_clients_def)

subsection \<open>C3: when Status(connected) is sent\<close>

text \<open>
  Counterexample to C3 as stated. Scenario A's \<open>connect\<close>, the client's \<open>ready\<close>
  event, then a shell callback reporting the error \<open>denied\<close>: \<open>Status(connected)\<close>
  is sent by the \<open>ready\<close> callback, before the shell is requested and although no
  stream is ever delivered; the failure is reported after it.
\<close>

theorem C3_connected_before_shell:
  "run byte_chars init [WsMessage (Some connect_frame), ClientReady 0,
                        ShellCallback (Some ''denied'') False] =
     Inr \<lparr> sshClient = None, sshStream = None, connected = False, pendingResize = None,
           wsOpen = True, clients = [(JNum 80, JNum 24)], shellReqs = 0, streams = [],
           trace = [NewClient 0, Send (Status Connecting None),
                    ClientConnect 0 (JStr ''10.0.0.5'') (JStr ''root'') (JStr ''x'') (JNum 22),
                    Send (Status Connected None), ClientShell 0 (JNum 80) (JNum 24),
                    Send (Status Error (Some ''denied'')), ClientEnd 0] \<rparr>"
  by (simp add: handler_defs scenario_defs)

lemma cleanup_connected_sends:
  "filter is_connected (trace (cleanup s)) = filter is_connected (trace s)"
  by (simp add: cleanup_trace split: option.splits)

lemma step_connected_sends:
  assumes "\<forall>c. e \<noteq> ClientReady c" and "step dec s e = Inr s'"
  shows "filter is_connected (trace s') = filter is_connected (trace s)"
proof (cases e)
  case (WsMessage raw)
  show ?thesis
  proof (cases raw)
    case None
    with WsMessage assms show ?thesis
      by (auto simp add: on_message_def sendStatus_trace split: if_splits)
  next
    case (Some p)
    with WsMessage assms show ?thesis
      by (auto simp add: on_message_def on_connect_def on_resize_def on_disconnect_def
            sendStatus_trace cleanup_connected_sends emit_def Let_def
            split: if_splits option.splits dest!: on_input_Inr)
  qed
next
  case (ShellCallback err stream)
  with assms show ?thesis
    by (auto simp add: shell_callback_def sendStatus_trace cleanup_connected_sends emit_def
          Let_def split: if_splits option.splits)
qed (use assms in \<open>auto simp add: on_ws_close_def on_ws_error_def on_client_error_def
        on_client_end_def on_stream_data_def on_stream_close_def sendStatus_trace
        cleanup_connected_sends split: if_splits\<close>)

text \<open>
  C3, amended. \<open>Status(connected)\<close> is sent by the \<open>ready\<close> callback of the client
  (authentication succeeded), before the shell is requested, and by no other
  callback. The \<open>ready\<close> callback sets the \<open>connected\<close> flag and leaves the shell
  stream and the pending resize as they were. The stream is stored, and the pending
  resize applied and cleared, later, by the shell callback, which sends no status when
  it succeeds; when the shell fails to open it sends \<open>Status(error, reason)\<close> and
  cleans up.
\<close>

theorem C3_connected_sent_on_ready:
  "trace (on_ready s cr) = trace s
       @ (if wsOpen s then [Send (Status Connected None)] else [])
       @ (case sshClient s of Some c \<Rightarrow> [ClientShell c (fst cr) (snd cr)] | None \<Rightarrow> [])
   \<and> connected (on_ready s cr)
   \<and> sshStream (on_ready s cr) = sshStream s
   \<and> pendingResize (on_ready s cr) = pendingResize s
   \<and> ((\<forall>c. e \<noteq> ClientReady c) \<and> step dec s e = Inr s' \<longrightarrow>
        filter is_connected (trace s') = filter is_connected (trace s))
   \<and> sshStream (shell_callback s None (Some st)) = Some st
   \<and> pendingResize (shell_callback s None (Some st)) = None
   \<and> trace (shell_callback s None (Some st)) = trace s
       @ (case pendingResize s of Some (c, r) \<Rightarrow> [StreamSetWindow st r c] | None \<Rightarrow> [])
   \<and> trace (shell_callback s err None) = trace s
       @ (if wsOpen s
          then [Send (Status Error (Some (case err of Some m \<Rightarrow> m | None \<Rightarrow> ''Failed to open shell'')))]
          else [])
       @ (case sshStream s of Some st \<Rightarrow> [StreamEnd st] | None \<Rightarrow> [])
       @ (case sshClient s of Some c \<Rightarrow> [ClientEnd c] | None \<Rightarrow> [])"
proof -
  have ready: "trace (on_ready s cr) = trace s
       @ (if wsOpen s then [Send (Status Connected None)] else [])
       @ (case sshClient s of Some c \<Rightarrow> [ClientShell c (fst cr) (snd cr)] | None \<Rightarrow> [])"
    "connected (on_ready s cr)" "sshStream (on_ready s cr) = sshStream s"
    "pendingResize (on_ready s cr) = pendingResize s"
    by (simp_all add: on_ready_def sendStatus_def emit_def Let_def split: option.splits)
  have only: "(\<forall>c. e \<noteq> ClientReady c) \<and> step dec s e = Inr s' \<longrightarrow>
        filter is_connected (trace s') = filter is_connected (trace s)"
    using step_connected_sends by blast
  have ok: "sshStream (shell_callback s None (Some st)) = Some st"
    "pendingResize (shell_callback s None (Some st)) = None"
    "trace (shell_callback s None (Some st)) = trace s
       @ (case pendingResize s of Some (c, r) \<Rightarrow> [StreamSetWindow st r c] | None \<Rightarrow> [])"
    by (simp_all add: shell_callback_def emit_def Let_def split: option.splits)
  have failed: "trace (shell_callback s err None) = trace s
       @ (if wsOpen s
          then [Send (Status Error (Some (case err of Some m \<Rightarrow> m | None \<Rightarrow> ''Failed to open shell'')))]
          else [])
       @ (case sshStream s of Some st \<Rightarrow> [StreamEnd st] | None \<Rightarrow> [])
       @ (case sshClient s of Some c \<Rightarrow> [ClientEnd c] | None \<Rightarrow> [])"
    by (cases err) (simp_all add: shell_callback_def cleanup_trace sendStatus_trace)
  from ready only ok failed show ?thesis by blast
qed

theorem C3_connected_sent_on_ready_witness:
  "trace (on_ready scenario_connecting (JNum 80, JNum 24)) =
     trace scenario_connecting @ [Send (Status Connected None), ClientShell 0 (JNum 80) (JNum 24)]
   \<and> sshStream (on_ready scenario_connecting (JNum 80, JNum 24)) = None
   \<and> step byte_chars scenario_authenticated (ShellCallback None True) = Inr scenario_active
   \<and> filter is_connected (trace scenario_active) = filter is_connected (trace scenario_authenticated)
   \<and> trace (shell_callback scenario_authenticated (Some ''denied'') None) =
       trace scenario_authenticated @ [Send (Status Error (Some ''denied'')), ClientEnd 0]"
proof -
  have st: "step byte_chars scenario_authenticated (ShellCallback None True) = Inr scenario_active"
    using scenario_active_reached [of byte_chars] by simp
  have a: "trace (on_ready scenario_connecting (JNum 80, JNum 24)) =
     trace scenario_connecting @ [Send (Status Connected None), ClientShell 0 (JNum 80) (JNum 24)]"
    and b: "sshStream (on_ready scenario_connecting (JNum 80, JNum 24)) = None"
    using C3_connected_sent_on_ready [where s = scenario_connecting and cr = "(JNum 80, JNum 24)"]
    by (simp_all add: scenario_connecting_def)
  have c: "filter is_connected (trace scenario_active)
             = filter is_connected (trace scenario_authenticated)"
    using C3_connected_sent_on_ready [where s = scenario_authenticated
        and e = "ShellCallback None True" and dec = byte_chars and s' = scenario_active] st
    by simp
  have d: "trace (shell_callback scenario_authenticated (Some ''denied'') None) =
       trace scenario_authenticated @ [Send (Status Error (Some ''denied'')), ClientEnd 0]"
    using C3_connected_sent_on_ready [where s = scenario_authenticated and err = "Some ''denied''"]
    by (simp add: scenario_authenticated_def)
  from st a b c d show ?thesis by simp
qed

subsection \<open>C4: the pending resize\<close>

lemma resizes_pending:
  assumes "list_all (\<lambda>p. get_field p ''type'' = JStr ''resize'') ps"
    and "wsOpen s" and "sshStream s = None"
  shows "run dec s (map (\<lambda>p. WsMessage (Some p)) ps) =
           Inr (if ps = [] then s
                else s\<lparr> pendingResize :=
                          Some (get_field (last ps) ''cols'', get_field (last ps) ''rows'') \<rparr>)"
  using assms
proof (induction ps arbitrary: s)
  case Nil
  then show ?case by simp
next
  case (Cons p ps)
  let ?s1 = "s\<lparr> pendingResize := Some (get_field p ''cols'', get_field p ''rows'') \<rparr>"
  from Cons.prems have st: "step dec s (WsMessage (Some p)) = Inr ?s1"
    by (simp add: on_message_resize on_resize_def)
  from Cons.prems have "run dec ?s1 (map (\<lambda>p. WsMessage (Some p)) ps) =
           Inr (if ps = [] then ?s1
                else ?s1\<lparr> pendingResize :=
                            Some (get_field (last ps) ''cols'', get_field (last ps) ''rows'') \<rparr>)"
    by (intro Cons.IH) simp_all
  with st show ?case by simp
qed

text \<open>
  C4. On an open socket with no shell stream, after any run of \<open>resize\<close> frames the
  pending resize is the pair of the last frame, whatever was pending before and
  whatever the earlier frames carried, and nothing was sent to the remote side. When the
  shell callback then delivers a stream, \<open>setWindow\<close> is called once, on that stream,
  with the pair of the last frame, and the pending resize is cleared. With a stream
  present, a \<open>resize\<close> frame calls \<open>setWindow\<close> on it at once and changes nothing else,
  the pending resize included.
\<close>

theorem C4_pending_resize:
  "(list_all (\<lambda>p. get_field p ''type'' = JStr ''resize'') (ps @ [p]) \<and> wsOpen s
      \<and> sshStream s = None \<longrightarrow>
        run dec s (map (\<lambda>p. WsMessage (Some p)) (ps @ [p])) =
          Inr (s\<lparr> pendingResize := Some (get_field p ''cols'', get_field p ''rows'') \<rparr>))
   \<and> (list_all (\<lambda>p. get_field p ''type'' = JStr ''resize'') (ps @ [p]) \<and> wsOpen s
      \<and> sshStream s = None \<and> 0 < shellReqs s \<longrightarrow>
        run dec s (map (\<lambda>p. WsMessage (Some p)) (ps @ [p]) @ [ShellCallback None True]) =
          Inr (s\<lparr> sshStream := Some (length (streams s)), pendingResize := None,
                   shellReqs := shellReqs s - 1,
                   streams := streams s @ [length (streams s)],
                   trace := trace s @ [StreamSetWindow (length (streams s))
                                         (get_field p ''rows'') (get_field p ''cols'')] \<rparr>))
   \<and> (get_field p ''type'' = JStr ''resize'' \<and> wsOpen s \<and> sshStream s = Some st \<longrightarrow>
        run dec s [WsMessage (Some p)] =
          Inr (s\<lparr> trace := trace s @ [StreamSetWindow st (get_field p ''rows'')
                                         (get_field p ''cols'')] \<rparr>))"
proof -
  have a: "run dec s (map (\<lambda>p. WsMessage (Some p)) (ps @ [p])) =
              Inr (s\<lparr> pendingResize := Some (get_field p ''cols'', get_field p ''rows'') \<rparr>)"
    if "list_all (\<lambda>p. get_field p ''type'' = JStr ''resize'') (ps @ [p])" "wsOpen s"
      "sshStream s = None"
    using resizes_pending [OF that, of dec] by simp
  have b: "run dec s (map (\<lambda>p. WsMessage (Some p)) (ps @ [p]) @ [ShellCallback None True]) =
              Inr (s\<lparr> sshStream := Some (length (streams s)), pendingResize := None,
                       shellReqs := shellReqs s - 1,
                       streams := streams s @ [length (streams s)],
                       trace := trace s @ [StreamSetWindow (length (streams s))
                                             (get_field p ''rows'') (get_field p ''cols'')] \<rparr>)"
    if "list_all (\<lambda>p. get_field p ''type'' = JStr ''resize'') (ps @ [p])" "wsOpen s"
      "sshStream s = None" "0 < shellReqs s"
    unfolding run_append [of dec s "map (\<lambda>p. WsMessage (Some p)) (ps @ [p])"]
      a [OF that(1,2,3)]
    using that(4) by (simp add: shell_callback_def emit_def Let_def)
  have c: "run dec s [WsMessage (Some p)] =
              Inr (s\<lparr> trace := trace s @ [StreamSetWindow st (get_field p ''rows'')
                                             (get_field p ''cols'')] \<rparr>)"
    if "get_field p ''type'' = JStr ''resize''" "wsOpen s" "sshStream s = Some st"
    using that by (simp add: on_message_resize on_resize_def emit_def)
  from a b c show ?thesis by blast
qed

theorem C4_pending_resize_witness:
  "run byte_chars scenario_authenticated
     [WsMessage (Some (resize_frame 100 30)), WsMessage (Some (resize_frame 120 40))] =
     Inr (scenario_authenticated\<lparr> pendingResize := Some (JNum 120, JNum 40) \<rparr>)
   \<and> run byte_chars scenario_authenticated
     [WsMessage (Some (resize_frame 100 30)), WsMessage (Some (resize_frame 120 40)),
      ShellCallback None True] =
     Inr (scenario_active\<lparr> trace := trace scenario_authenticated
                                      @ [StreamSetWindow 0 (JNum 40) (JNum 120)] \<rparr>)
   \<and> run byte_chars scenario_active [WsMessage (Some (resize_frame 120 40))] =
     Inr (scenario_active\<lparr> trace := trace scenario_active
                                      @ [StreamSetWindow 0 (JNum 40) (JNum 120)] \<rparr>)"
proof -
  have a: "run byte_chars scenario_authenticated
     [WsMessage (Some (resize_frame 100 30)), WsMessage (Some (resize_frame 120 40))] =
     Inr (scenario_authenticated\<lparr> pendingResize := Some (JNum 120, JNum 40) \<rparr>)"
    and b: "run byte_chars scenario_authenticated
     [WsMessage (Some (resize_frame 100 30)), WsMessage (Some (resize_frame 120 40)),
      ShellCallback None True] =
     Inr (scenario_active\<lparr> trace := trace scenario_authenticated
                                      @ [StreamSetWindow 0 (JNum 40) (JNum 120)] \<rparr>)"
    using C4_pending_resize [where ps = "[resize_frame 100 30]" and p = "resize_frame 120 40"
        and s = scenario_authenticated and dec = byte_chars]
    by (simp_all add: resize_frame_def scenario_authenticated_def scenario_active_def)
  have c: "run byte_chars scenario_active [WsMessage (Some (resize_frame 120 40))] =
     Inr (scenario_active\<lparr> trace := trace scenario_active
                                      @ [StreamSetWindow 0 (JNum 40) (JNum 120)] \<rparr>)"
    using C4_pending_resize [where p = "resize_frame 120 40" and s = scenario_active
        and dec = byte_chars and st = 0]
    by (simp add: resize_frame_def scenario_active_def)
  from a b c show ?thesis by simp
qed

subsection \<open>C5: what a disconnect frame reports\<close>

text \<open>
  Counterexample to C5 as stated. Scenario A's \<open>connect\<close> followed by a
  \<open>disconnect\<close> frame before the client is ready: a client exists, and it is ended
  without any \<open>Status(disconnected)\<close> being sent.
\<close>

theorem C5_silent_disconnect_while_connecting:
  "run byte_chars init [WsMessage (Some connect_frame), WsMessage (Some disconnect_frame)] =
     Inr \<lparr> sshClient = None, sshStream = None, connected = False, pendingResize = None,
           wsOpen = True, clients = [(JNum 80, JNum 24)], shellReqs = 0, streams = [],
           trace = [NewClient 0, Send (Status Connecting None),
                    ClientConnect 0 (JStr ''10.0.0.5'') (JStr ''root'') (JStr ''x'') (JNum 22),
                    ClientEnd 0] \<rparr>"
  by (simp add: handler_defs scenario_defs)

text \<open>
  C5, amended. A \<open>disconnect\<close> frame sends
  \<open>Status(disconnected, "Disconnected by client")\<close>, once and before anything is
  released, exactly when the \<open>connected\<close> flag is set or a shell stream exists (and the
  socket is open). When the flag is unset and no stream exists it sends nothing, also
  when a client is still connecting. In both cases it then ends the stream and the
  client, if present, and resets the four variables.
\<close>

theorem C5_disconnect:
  assumes "get_field p ''type'' = JStr ''disconnect''"
  shows "\<exists>s'. on_message s (Some p) = Inr s'
     \<and> trace s' = trace s
         @ (if (connected s \<or> sshStream s \<noteq> None) \<and> wsOpen s
            then [Send (Status Disconnected (Some ''Disconnected by client''))] else [])
         @ (case sshStream s of Some st \<Rightarrow> [StreamEnd st] | None \<Rightarrow> [])
         @ (case sshClient s of Some c \<Rightarrow> [ClientEnd c] | None \<Rightarrow> [])
     \<and> sshClient s' = None \<and> sshStream s' = None \<and> \<not> connected s'
     \<and> pendingResize s' = None"
  using assms
  by (simp add: on_message_disconnect on_disconnect_def cleanup_trace sendStatus_trace)

theorem C5_disconnect_witness:
  "get_field disconnect_frame ''type'' = JStr ''disconnect''
   \<and> (\<exists>s'. on_message scenario_active (Some disconnect_frame) = Inr s'
        \<and> trace s' = trace scenario_active
            @ [Send (Status Disconnected (Some ''Disconnected by client'')),
               StreamEnd 0, ClientEnd 0]
        \<and> sshClient s' = None \<and> sshStream s' = None \<and> \<not> connected s'
        \<and> pendingResize s' = None)"
proof -
  have h: "get_field disconnect_frame ''type'' = JStr ''disconnect''"
    by (simp add: disconnect_frame_def)
  from C5_disconnect [OF h, of scenario_active] h show ?thesis
    by (simp add: scenario_active_def)
qed

subsection \<open>C6: a late ready event\<close>

text \<open>
  C6. The claim: once a disconnect or a closed socket has torn the session down during
  Connecting, the late outcome of the connect opens no shell, sends no
  \<open>Status(connected)\<close> and leaves the flags as \<open>cleanup\<close> set them. Evaluated on
  scenario A's \<open>connect\<close>, a teardown, then the \<open>ready\<close> event of client 0. After the
  \<open>disconnect\<close> frame the late \<open>ready\<close> sends \<open>Status(connected)\<close> and sets
  \<open>connected\<close>, with no client and no stream held; after the socket's \<open>close\<close> it
  sends nothing, the socket being closed, and sets \<open>connected\<close> all the same. No shell
  is requested in either run, \<open>sshClient\<close> being \<open>null\<close>.
\<close>

theorem C6_late_ready_after_teardown:
  "run byte_chars init [WsMessage (Some connect_frame), WsMessage (Some disconnect_frame),
                        ClientReady 0] =
     Inr \<lparr> sshClient = None, sshStream = None, connected = True, pendingResize = None,
           wsOpen = True, clients = [(JNum 80, JNum 24)], shellReqs = 0, streams = [],
           trace = [NewClient 0, Send (Status Connecting None),
                    ClientConnect 0 (JStr ''10.0.0.5'') (JStr ''root'') (JStr ''x'') (JNum 22),
                    ClientEnd 0, Send (Status Connected None)] \<rparr>
   \<and> run byte_chars init [WsMessage (Some connect_frame), WsClose, ClientReady 0] =
     Inr \<lparr> sshClient = None, sshStream = None, connected = True, pendingResize = None,
           wsOpen = False, clients = [(JNum 80, JNum 24)], shellReqs = 0, streams = [],
           trace = [NewClient 0, Send (Status Connecting None),
                    ClientConnect 0 (JStr ''10.0.0.5'') (JStr ''root'') (JStr ''x'') (JNum 22),
                    ClientEnd 0] \<rparr>"
  by (simp add: handler_defs scenario_defs)

subsection \<open>C7: input frames\<close>

text \<open>
  C7. On an open socket, an \<open>input\<close> frame processed while the \<open>connected\<close> flag is
  unset or no shell stream exists writes nothing to the remote side, sends exactly one
  \<open>Status(error, "No active connection")\<close> and changes nothing else, whatever the
  frame carries; an Input message, whose \<open>data\<close> is text, processed while the flag is
  set and a stream exists, has that text written to the stream, and nothing else
  happens.
\<close>

theorem C7_input:
  assumes "wsOpen s" and "get_field p ''type'' = JStr ''input''"
  shows "(\<not> connected s \<or> sshStream s = None \<longrightarrow>
            on_message s (Some p) =
              Inr (s\<lparr> trace := trace s @ [Send (Status Error (Some ''No active connection''))] \<rparr>))
       \<and> (\<forall>st d. connected s \<and> sshStream s = Some st \<and> get_field p ''data'' = JStr d \<longrightarrow>
            on_message s (Some p) =
              Inr (s\<lparr> trace := trace s @ [StreamWrite st (JStr d)] \<rparr>))"
  using assms
  by (auto simp add: on_message_input on_input_def sendStatus_def emit_def split: option.splits)

theorem C7_input_witness:
  "wsOpen scenario_authenticated \<and> wsOpen scenario_active
   \<and> get_field (input_frame ''ls'') ''type'' = JStr ''input''
   \<and> get_field (input_frame ''ls'') ''data'' = JStr ''ls''
   \<and> sshStream scenario_authenticated = None
   \<and> on_message scenario_authenticated (Some (input_frame ''ls'')) =
       Inr (scenario_authenticated\<lparr> trace := trace scenario_authenticated
              @ [Send (Status Error (Some ''No active connection''))] \<rparr>)
   \<and> connected scenario_active \<and> sshStream scenario_active = Some 0
   \<and> on_message scenario_active (Some (input_frame ''ls'')) =
       Inr (scenario_active\<lparr> trace := trace scenario_active @ [StreamWrite 0 (JStr ''ls'')] \<rparr>)"
proof -
  have h: "get_field (input_frame ''ls'') ''type'' = JStr ''input''"
    and d: "get_field (input_frame ''ls'') ''data'' = JStr ''ls''"
    by (simp_all add: input_frame_def)
  have o1: "wsOpen scenario_authenticated" and n1: "sshStream scenario_authenticated = None"
    by (simp_all add: scenario_authenticated_def)
  have o2: "wsOpen scenario_active" and c2: "connected scenario_active"
    and s2: "sshStream scenario_active = Some 0"
    by (simp_all add: scenario_active_def)
  from C7_input [OF o1 h] n1
  have a: "on_message scenario_authenticated (Some (input_frame ''ls'')) =
       Inr (scenario_authenticated\<lparr> trace := trace scenario_authenticated
              @ [Send (Status Error (Some ''No active connection''))] \<rparr>)"
    by simp
  from C7_input [OF o2 h] c2 s2 d
  have b: "on_message scenario_active (Some (input_frame ''ls'')) =
       Inr (scenario_active\<lparr> trace := trace scenario_active @ [StreamWrite 0 (JStr ''ls'')] \<rparr>)"
    by simp
  from h d o1 n1 o2 c2 s2 a b show ?thesis by simp
qed

text \<open>
  A frame tagged \<open>input\<close> whose \<open>data\<close> is missing or no string is no Input message.
  In an Active session it reaches \<open>sshStream.write\<close>, which throws.
\<close>

lemma input_without_text_throws:
  assumes "get_field p ''type'' = JStr ''input''" and "connected s" and "sshStream s = Some st"
    and "\<forall>d. get_field p ''data'' \<noteq> JStr d"
  shows "on_message s (Some p) = Inl TypeError"
  using assms
  by (cases "get_field p ''data''") (simp_all add: on_message_input on_input_def)

subsection \<open>C8: relaying the shell's output\<close>













subsection \<open>C9: frames that are no message\<close>

text \<open>
  Counterexample to C9 as stated. A frame that parses to an object with the unknown
  type tag \<open>ping\<close> falls through to the \<open>default\<close> branch of the switch: nothing is
  sent.
\<close>

theorem C9_unknown_type_is_silent:
  "run byte_chars init [WsMessage (Some ping_frame)] =
     Inr \<lparr> sshClient = None, sshStream = None, connected = False, pendingResize = None,
           wsOpen = True, clients = [], shellReqs = 0, streams = [], trace = [] \<rparr>"
  by (simp add: handler_defs scenario_defs)

text \<open>
  C9, amended. A frame that is not valid JSON is answered with
  \<open>Status(error, "Invalid message format")\<close>, exactly one on an open socket, and changes
  nothing else. A frame that parses to a value other than \<open>null\<close> whose \<open>type\<close> is
  none of \<open>connect\<close>, \<open>input\<close>, \<open>resize\<close>, \<open>disconnect\<close> (an unknown tag, no tag, or a
  value that is no object) is ignored: nothing is sent and nothing changes.
\<close>

theorem C9_malformed_frames:
  "on_message s None = Inr (sendStatus s (Status Error (Some ''Invalid message format'')))
   \<and> (wsOpen s \<longrightarrow>
        on_message s None =
          Inr (s\<lparr> trace := trace s @ [Send (Status Error (Some ''Invalid message format''))] \<rparr>))
   \<and> (p \<noteq> JNull \<and> p \<noteq> Undefined
        \<and> get_field p ''type'' \<notin> {JStr ''connect'', JStr ''input'', JStr ''resize'',
                                    JStr ''disconnect''}
        \<longrightarrow> on_message s (Some p) = Inr s)"
  by (simp add: on_message_def sendStatus_def emit_def)

text \<open>
  The frame \<open>null\<close> is valid JSON and stays outside the statement above: reading
  its \<open>type\<close> throws, outside the \<open>try\<close> block.
\<close>

lemma null_frame_throws: "on_message s (Some JNull) = Inl TypeError"
  by (simp add: on_message_def)

theorem C9_malformed_frames_witness:
  "wsOpen scenario_active
   \<and> on_message scenario_active None =
       Inr (scenario_active\<lparr> trace := trace scenario_active
              @ [Send (Status Error (Some ''Invalid message format''))] \<rparr>)
   \<and> get_field (JNum 7) ''type'' = Undefined
   \<and> on_message scenario_active (Some (JNum 7)) = Inr scenario_active
   \<and> get_field ping_frame ''type'' = JStr ''ping''
   \<and> on_message scenario_active (Some ping_frame) = Inr scenario_active"
proof -
  have w: "wsOpen scenario_active"
    by (simp add: scenario_active_def)
  have t: "get_field (JNum 7) ''type'' = Undefined" "get_field ping_frame ''type'' = JStr ''ping''"
    by (simp_all add: ping_frame_def)
  from C9_malformed_frames [of scenario_active JNull] w
  have a: "on_message scenario_active None =
       Inr (scenario_active\<lparr> trace := trace scenario_active
              @ [Send (Status Error (Some ''Invalid message format''))] \<rparr>)"
    by (simp add: sendStatus_def emit_def)
  from C9_malformed_frames [of scenario_active "JNum 7"]
  have b: "on_message scenario_active (Some (JNum 7)) = Inr scenario_active"
    by simp
  from C9_malformed_frames [of scenario_active ping_frame] t
  have c: "on_message scenario_active (Some ping_frame) = Inr scenario_active"
    by (simp add: ping_frame_def)
  from w t a b c show ?thesis by simp
qed

subsection \<open>C10: teardown clears the pending resize\<close>

lemma cleanup_setWindows:
  "filter is_setWindow (trace (cleanup s)) = filter is_setWindow (trace s)"
  by (simp add: cleanup_trace split: option.splits)

lemma sendStatus_setWindows:
  "filter is_setWindow (trace (sendStatus s m)) = filter is_setWindow (trace s)"
  by (simp add: sendStatus_trace)

lemma step_keeps_no_pending:
  assumes "\<not> is_resize e" and "pendingResize s = None" and "step dec s e = Inr s'"
  shows "pendingResize s' = None \<and> filter is_setWindow (trace s') = filter is_setWindow (trace s)"
proof (cases e)
  case (WsMessage raw)
  show ?thesis
  proof (cases raw)
    case None
    with WsMessage assms show ?thesis
      by (auto simp add: on_message_def sendStatus_setWindows split: if_splits)
  next
    case (Some p)
    with WsMessage assms show ?thesis
      by (auto simp add: on_message_def on_connect_def on_disconnect_def
            sendStatus_setWindows cleanup_setWindows emit_def Let_def
            split: if_splits option.splits dest!: on_input_Inr)
  qed
next
  case (ShellCallback err stream)
  with assms show ?thesis
    by (auto simp add: shell_callback_def sendStatus_setWindows cleanup_setWindows emit_def
          Let_def split: if_splits option.splits)
qed (use assms in \<open>auto simp add: on_ws_close_def on_ws_error_def on_ready_def on_client_error_def
        on_client_end_def on_stream_data_def on_stream_close_def sendStatus_setWindows
        cleanup_setWindows emit_def Let_def split: if_splits option.splits\<close>)

lemma run_keeps_no_pending:
  "list_all (\<lambda>e. \<not> is_resize e) evs \<Longrightarrow> pendingResize s = None \<Longrightarrow> run dec s evs = Inr s' \<Longrightarrow>
   pendingResize s' = None \<and> filter is_setWindow (trace s') = filter is_setWindow (trace s)"
proof (induction evs arbitrary: s)
  case Nil
  then show ?case by simp
next
  case (Cons e evs)
  from Cons.prems obtain s1 where s1: "step dec s e = Inr s1" and r: "run dec s1 evs = Inr s'"
    by (auto split: sum.splits)
  from Cons.prems s1
  have k: "pendingResize s1 = None \<and> filter is_setWindow (trace s1) = filter is_setWindow (trace s)"
    using step_keeps_no_pending [of e s dec s1] by simp
  with Cons.IH [of s1] Cons.prems r show ?case by simp
qed

lemma teardown_step:
  assumes "teardown s t"
  shows "\<exists>s1. step dec s t = Inr s1 \<and> sshClient s1 = None \<and> sshStream s1 = None
          \<and> \<not> connected s1 \<and> pendingResize s1 = None
          \<and> filter is_setWindow (trace s1) = filter is_setWindow (trace s)"
proof (cases t)
  case (WsMessage raw)
  with assms obtain p where "raw = Some p" "wsOpen s" "get_field p ''type'' = JStr ''disconnect''"
    by (cases raw) auto
  with WsMessage show ?thesis
    by (simp add: on_message_disconnect on_disconnect_def cleanup_setWindows sendStatus_setWindows)
next
  case (ShellCallback err stream)
  with assms show ?thesis
    by (cases err; cases stream)
      (simp_all add: shell_callback_def cleanup_setWindows sendStatus_setWindows)
qed (use assms in \<open>simp_all add: on_ws_close_def on_ws_error_def on_client_error_def
        on_client_end_def on_stream_close_def sendStatus_setWindows cleanup_setWindows\<close>)

text \<open>
  Counterexample to C10 as stated. Scenario A's \<open>connect\<close>, a \<open>resize\<close> to
  120 by 40 stored while client 0 is connecting, then a second \<open>connect\<close>, accepted
  because the flag is still unset. No teardown event occurs. When client 1 is ready
  and its shell opens, the pair stored during the first attempt is applied to the
  shell stream of the second.
\<close>

theorem C10_stale_resize_without_teardown:
  "run byte_chars init
     [WsMessage (Some connect_frame), WsMessage (Some (resize_frame 120 40)),
      WsMessage (Some connect_frame), ClientReady 1, ShellCallback None True] =
     Inr \<lparr> sshClient = Some 1, sshStream = Some 0, connected = True, pendingResize = None,
           wsOpen = True, clients = [(JNum 80, JNum 24), (JNum 80, JNum 24)],
           shellReqs = 0, streams = [0],
           trace = [NewClient 0, Send (Status Connecting None),
                    ClientConnect 0 (JStr ''10.0.0.5'') (JStr ''root'') (JStr ''x'') (JNum 22),
                    NewClient 1, Send (Status Connecting None),
                    ClientConnect 1 (JStr ''10.0.0.5'') (JStr ''root'') (JStr ''x'') (JNum 22),
                    Send (Status Connected None), ClientShell 1 (JNum 80) (JNum 24),
                    StreamSetWindow 0 (JNum 40) (JNum 120)] \<rparr>"
  by (simp add: handler_defs scenario_defs)

text \<open>
  C10, amended. Each teardown event (a \<open>disconnect\<close> frame, the socket's \<open>close\<close> or
  \<open>error\<close>, a client's \<open>error\<close> or \<open>end\<close>, a stream's \<open>close\<close>, a shell callback
  reporting failure) is processed without an exception and leaves no client, no
  stream, the flag unset and no pending resize. Whatever events follow, so long as no
  new \<open>resize\<close> frame is among them, the pending resize stays empty and \<open>setWindow\<close> is
  never called: a pair stored before a teardown reaches no stream opened after it.
\<close>

theorem C10_teardown_clears_pending_resize:
  assumes "teardown s t"
  shows "\<exists>s1. step dec s t = Inr s1 \<and> sshClient s1 = None \<and> sshStream s1 = None
          \<and> \<not> connected s1 \<and> pendingResize s1 = None
          \<and> (\<forall>evs s2. list_all (\<lambda>e. \<not> is_resize e) evs \<and> run dec s1 evs = Inr s2 \<longrightarrow>
               pendingResize s2 = None
               \<and> filter is_setWindow (trace s2) = filter is_setWindow (trace s))"
proof -
  from teardown_step [OF assms, of dec] obtain s1 where
    s1: "step dec s t = Inr s1" "sshClient s1 = None" "sshStream s1 = None" "\<not> connected s1"
        "pendingResize s1 = None" "filter is_setWindow (trace s1) = filter is_setWindow (trace s)"
    by blast
  have "pendingResize s2 = None \<and> filter is_setWindow (trace s2) = filter is_setWindow (trace s)"
    if "list_all (\<lambda>e. \<not> is_resize e) evs" "run dec s1 evs = Inr s2" for evs s2
    using run_keeps_no_pending [OF that(1) s1(5) that(2)] s1(6) by simp
  with s1 show ?thesis by blast
qed

theorem C10_teardown_clears_pending_resize_witness:
  "teardown (scenario_connecting\<lparr> pendingResize := Some (JNum 120, JNum 40) \<rparr>)
     (WsMessage (Some disconnect_frame))
   \<and> list_all (\<lambda>e. \<not> is_resize e)
       [WsMessage (Some connect_frame), ClientReady 1, ShellCallback None True]
   \<and> (\<exists>s2. run byte_chars (scenario_connecting\<lparr> pendingResize := Some (JNum 120, JNum 40) \<rparr>)
        [WsMessage (Some disconnect_frame),
         WsMessage (Some connect_frame), ClientReady 1, ShellCallback None True] = Inr s2
      \<and> sshStream s2 = Some 0 \<and> pendingResize s2 = None
      \<and> filter is_setWindow (trace s2) = [])"
proof -
  let ?s = "scenario_connecting\<lparr> pendingResize := Some (JNum 120, JNum 40) \<rparr>"
  let ?t = "WsMessage (Some disconnect_frame)"
  let ?evs = "[WsMessage (Some connect_frame), ClientReady 1, ShellCallback None True]"
  let ?final = "\<lparr> sshClient = Some 1, sshStream = Some 0, connected = True,
      pendingResize = None, wsOpen = True,
      clients = [(JNum 80, JNum 24), (JNum 80, JNum 24)], shellReqs = 0, streams = [0],
      trace = [NewClient 0, Send (Status Connecting None),
               ClientConnect 0 (JStr ''10.0.0.5'') (JStr ''root'') (JStr ''x'') (JNum 22),
               ClientEnd 0, NewClient 1, Send (Status Connecting None),
               ClientConnect 1 (JStr ''10.0.0.5'') (JStr ''root'') (JStr ''x'') (JNum 22),
               Send (Status Connected None), ClientShell 1 (JNum 80) (JNum 24)] \<rparr>"
  have t: "teardown ?s ?t"
    by (simp add: scenario_connecting_def disconnect_frame_def)
  have l: "list_all (\<lambda>e. \<not> is_resize e) ?evs"
    by (simp add: connect_frame_def)
  have full: "run byte_chars ?s (?t # ?evs) = Inr ?final"
    by (simp add: handler_defs scenario_defs)
  from C10_teardown_clears_pending_resize [OF t, of byte_chars] obtain s1 where
    s1: "step byte_chars ?s ?t = Inr s1"
    and after: "\<forall>evs s2. list_all (\<lambda>e. \<not> is_resize e) evs \<and> run byte_chars s1 evs = Inr s2 \<longrightarrow>
               pendingResize s2 = None
               \<and> filter is_setWindow (trace s2) = filter is_setWindow (trace ?s)"
    by blast
  have "run byte_chars ?s (?t # ?evs) = run byte_chars s1 ?evs"
    by (subst run.simps(2)) (simp only: s1 sum.case)
  with full have r: "run byte_chars s1 ?evs = Inr ?final"
    by (simp only:)
  from after l r
  have "pendingResize ?final = None
      \<and> filter is_setWindow (trace ?final) = filter is_setWindow (trace ?s)"
    by blast
  then have "filter is_setWindow (trace ?final) = []"
    by (simp add: scenario_connecting_def)
  with full have "\<exists>s2. run byte_chars ?s (?t # ?evs) = Inr s2
      \<and> sshStream s2 = Some 0 \<and> pendingResize s2 = None
      \<and> filter is_setWindow (trace s2) = []"
    by simp
  with t l show ?thesis by simp
qed

end
